theory Spec2Isabelle
  imports Complex_Main "HOL-Library.Code_Target_Nat"
begin

section \<open>ECMAScript values used by the scoring service\<close>

subsection \<open>Numbers\<close>

text \<open>
  A \<^verbatim>\<open>number\<close> is a finite value, one of the two infinities, or NaN. Finite
  arithmetic is carried out over the reals, so the rounding error of binary
  floating point is not part of the model; what is part of it is every place where
  the service can leave the finite numbers (\<^verbatim>\<open>0 / 0\<close>, \<^verbatim>\<open>x / 0\<close>), the way comparisons
  treat NaN, and the truthiness test \<^verbatim>\<open>x ? a : b\<close>. Signed zero is not distinguished.

  Where the exact value of a quotient lies on a rounding tie (\<open>n + 1/2\<close> for
  \<^verbatim>\<open>Math.round\<close>, \<open>n/100 + 1/200\<close> for \<^verbatim>\<open>toFixed(2)\<close>), the double that the service
  computes may lie just beside the tie and be rounded the other way. The statements
  about rounded fields therefore say what holds for either direction: the field is an
  integer, or a multiple of \<open>1/100\<close>, at the distance of at most half a unit from the
  value it rounds. Statements that name a rounded value do so at inputs that are not on a
  tie.
\<close>

datatype number = Fin real | PosInf | NegInf | NaN

fun num_sub :: "number \<Rightarrow> number \<Rightarrow> number" where
  "num_sub NaN _ = NaN"
| "num_sub _ NaN = NaN"
| "num_sub (Fin a) (Fin b) = Fin (a - b)"
| "num_sub (Fin a) PosInf = NegInf"
| "num_sub (Fin a) NegInf = PosInf"
| "num_sub PosInf PosInf = NaN"
| "num_sub PosInf _ = PosInf"
| "num_sub NegInf NegInf = NaN"
| "num_sub NegInf _ = NegInf"

fun num_mul :: "number \<Rightarrow> number \<Rightarrow> number" where
  "num_mul NaN _ = NaN"
| "num_mul _ NaN = NaN"
| "num_mul (Fin a) (Fin b) = Fin (a * b)"
| "num_mul (Fin a) PosInf = (if a = 0 then NaN else if 0 < a then PosInf else NegInf)"
| "num_mul (Fin a) NegInf = (if a = 0 then NaN else if 0 < a then NegInf else PosInf)"
| "num_mul PosInf (Fin b) = (if b = 0 then NaN else if 0 < b then PosInf else NegInf)"
| "num_mul NegInf (Fin b) = (if b = 0 then NaN else if 0 < b then NegInf else PosInf)"
| "num_mul PosInf PosInf = PosInf"
| "num_mul PosInf NegInf = NegInf"
| "num_mul NegInf PosInf = NegInf"
| "num_mul NegInf NegInf = PosInf"

fun num_div :: "number \<Rightarrow> number \<Rightarrow> number" where
  "num_div NaN _ = NaN"
| "num_div _ NaN = NaN"
| "num_div (Fin a) (Fin b) =
     (if b \<noteq> 0 then Fin (a / b)
      else if a = 0 then NaN
      else if 0 < a then PosInf else NegInf)"
| "num_div (Fin a) _ = Fin 0"
| "num_div PosInf (Fin b) = (if 0 \<le> b then PosInf else NegInf)"
| "num_div NegInf (Fin b) = (if 0 \<le> b then NegInf else PosInf)"
| "num_div _ _ = NaN"

text \<open>\<^verbatim>\<open>a >= b\<close> and \<^verbatim>\<open>a < b\<close>: both are false as soon as one side is NaN.\<close>

fun num_ge :: "number \<Rightarrow> number \<Rightarrow> bool" where
  "num_ge NaN _ = False"
| "num_ge _ NaN = False"
| "num_ge (Fin a) (Fin b) = (b \<le> a)"
| "num_ge PosInf _ = True"
| "num_ge _ NegInf = True"
| "num_ge _ _ = False"

fun num_lt :: "number \<Rightarrow> number \<Rightarrow> bool" where
  "num_lt NaN _ = False"
| "num_lt _ NaN = False"
| "num_lt (Fin a) (Fin b) = (a < b)"
| "num_lt PosInf _ = False"
| "num_lt _ NegInf = False"
| "num_lt _ _ = True"

text \<open>\<^verbatim>\<open>Math.round\<close> rounds to the nearest integer, ties towards \<open>+\<infinity>\<close>.\<close>

fun Math_round :: "number \<Rightarrow> number" where
  "Math_round (Fin x) = Fin (of_int \<lfloor>x + 1 / 2\<rfloor>)"
| "Math_round n = n"

fun Math_sqrt :: "number \<Rightarrow> number" where
  "Math_sqrt (Fin x) = (if x < 0 then NaN else Fin (sqrt x))"
| "Math_sqrt PosInf = PosInf"
| "Math_sqrt _ = NaN"

text \<open>
  \<^verbatim>\<open>Number(x.toFixed(2))\<close>: \<^verbatim>\<open>toFixed\<close> works on the magnitude and picks the integer
  \<open>n\<close> with \<open>n / 100\<close> nearest to it, the larger one on a tie; from \<open>10\<^sup>2\<^sup>1\<close> on it prints
  the number itself, and NaN and the infinities print as themselves.
\<close>

fun toFixed2 :: "number \<Rightarrow> number" where
  "toFixed2 (Fin x) =
     (if 10 ^ 21 \<le> \<bar>x\<bar> then Fin x
      else Fin (sgn x * of_int \<lfloor>\<bar>x\<bar> * 100 + 1 / 2\<rfloor> / 100))"
| "toFixed2 n = n"

text \<open>The truthiness of a number: \<^verbatim>\<open>0\<close> and NaN are falsy.\<close>

fun truthy :: "number \<Rightarrow> bool" where
  "truthy (Fin x) = (x \<noteq> 0)"
| "truthy NaN = False"
| "truthy _ = True"

subsection \<open>Strings\<close>

text \<open>
  A string is its sequence of UTF-16 code units. \<open>str\<close> writes an ASCII literal.
\<close>

type_synonym jsstring = "nat list"

definition str :: "string \<Rightarrow> jsstring" where
  "str s = map of_char s"

text \<open>The regular expression classes \<^verbatim>\<open>\s\<close> and \<^verbatim>\<open>\w\<close> (no \<^verbatim>\<open>u\<close> or \<^verbatim>\<open>i\<close> flag), and
  the range of combining marks U+0300 to U+036F.\<close>

definition is_space :: "nat \<Rightarrow> bool" where
  "is_space c \<longleftrightarrow>
     c = 0x09 \<or> c = 0x0A \<or> c = 0x0B \<or> c = 0x0C \<or> c = 0x0D \<or> c = 0x20 \<or> c = 0xA0 \<or>
     c = 0x1680 \<or> (0x2000 \<le> c \<and> c \<le> 0x200A) \<or> c = 0x2028 \<or> c = 0x2029 \<or>
     c = 0x202F \<or> c = 0x205F \<or> c = 0x3000 \<or> c = 0xFEFF"

definition is_word :: "nat \<Rightarrow> bool" where
  "is_word c \<longleftrightarrow>
     (0x30 \<le> c \<and> c \<le> 0x39) \<or> (0x41 \<le> c \<and> c \<le> 0x5A) \<or> c = 0x5F \<or>
     (0x61 \<le> c \<and> c \<le> 0x7A)"

definition is_combining :: "nat \<Rightarrow> bool" where
  "is_combining c \<longleftrightarrow> 0x300 \<le> c \<and> c \<le> 0x36F"

text \<open>
  \<^verbatim>\<open>s.split(/\s+/)\<close>: the fragments between maximal runs of whitespace. A run at the
  start or at the end leaves an empty fragment there, and the empty string splits into
  one empty fragment. \<open>cur\<close> is the fragment being read, \<open>insep\<close> says that the
  previous code unit belonged to a separator.
\<close>

fun split_from :: "jsstring \<Rightarrow> bool \<Rightarrow> jsstring \<Rightarrow> jsstring list" where
  "split_from cur insep [] = [cur]"
| "split_from cur insep (c # cs) =
     (if is_space c then (if insep then split_from cur True cs else cur # split_from [] True cs)
      else split_from (cur @ [c]) False cs)"

definition split_ws :: "jsstring \<Rightarrow> jsstring list" where
  "split_ws s = split_from [] False s"

text \<open>\<^verbatim>\<open>s.trim()\<close> removes whitespace and line terminators at both ends.\<close>

definition trim :: "jsstring \<Rightarrow> jsstring" where
  "trim s = rev (dropWhile is_space (rev (dropWhile is_space s)))"

text \<open>\<^verbatim>\<open>Array.from(new Set(xs))\<close>: the distinct elements in order of first occurrence.\<close>

definition array_from_set :: "'a list \<Rightarrow> 'a list" where
  "array_from_set xs = rev (remdups (rev xs))"

text \<open>
  What the service takes from its platform: the two string functions of the standard
  library (their Unicode tables are not part of the repository), the identifier
  generator and the clock.
\<close>

record platform =
  toLowerCase :: "jsstring \<Rightarrow> jsstring"
  normalizeNFD :: "jsstring \<Rightarrow> jsstring"
  randomUUID :: jsstring
  nowISOString :: jsstring

section \<open>constants.ts\<close>

definition STOPWORDS_PT_BR :: "jsstring list" where
  "STOPWORDS_PT_BR =
    [str ''a'', str ''o'', str ''as'', str ''os'', str ''um'', str ''uma'', str ''uns'',
     str ''umas'', str ''de'', str ''do'', str ''da'', str ''dos'', str ''das'',
     str ''em'', str ''no'', str ''na'', str ''nos'', str ''nas'', str ''por'', str ''pelo'',
     str ''pela'', str ''pelos'', str ''pelas'',
     str ''para'', str ''com'', str ''sem'', str ''sob'', str ''sobre'', str ''ante'',
     str ''at'' @ [0xE9],
     str ''e'', str ''ou'', str ''mas'', str ''nem'', str ''que'', str ''se'', str ''como'',
     str ''eu'', str ''tu'', str ''ele'', str ''ela'', str ''n'' @ [0xF3] @ str ''s'',
     str ''v'' @ [0xF3] @ str ''s'', str ''eles'', str ''elas'',
     str ''me'', str ''te'', str ''se'', str ''nos'', str ''vos'', str ''lhe'', str ''lhes'',
     str ''meu'', str ''teu'', str ''seu'', str ''nosso'', str ''vosso'',
     str ''ser'', str ''estar'', str ''ter'', str ''haver'', str ''fazer'', str ''ir'',
     str ''foi'', str ''era'', [0xE9], str ''s'' @ [0xE3] @ str ''o'',
     str ''est'' @ [0xE1], str ''est'' @ [0xE3] @ str ''o'',
     str ''isso'', str ''aquilo'', str ''isto'', str ''esse'', str ''essa'', str ''este'',
     str ''esta'',
     str ''muito'', str ''pouco'', str ''mais'', str ''menos'', str ''t'' @ [0xE3] @ str ''o'']"

definition STOPWORDS_EN_US :: "jsstring list" where
  "STOPWORDS_EN_US =
    [str ''a'', str ''an'', str ''the'', str ''in'', str ''on'', str ''at'', str ''to'',
     str ''for'', str ''of'', str ''with'', str ''by'',
     str ''and'', str ''or'', str ''but'', str ''is'', str ''are'', str ''was'', str ''were'',
     str ''be'', str ''been'',
     str ''i'', str ''you'', str ''he'', str ''she'', str ''it'', str ''we'', str ''they'',
     str ''this'', str ''that'', str ''these'', str ''those'']"

section \<open>types.ts\<close>

datatype Complexity = neutral | dense

datatype Language = pt_BR | en_US | es_ES

record NormativeProfile =
  np_id :: jsstring
  np_label :: jsstring
  np_language :: Language
  mean_wpm :: real
  sd_wpm :: real
  mean_coverage :: real
  sd_coverage :: real
  reliability_coverage :: real

record Keypoint =
  kp_id :: number
  kp_text :: jsstring
  kp_tokens :: "jsstring list"

record TestInstance =
  ti_id :: jsstring
  language :: Language
  topic :: jsstring
  complexity :: Complexity
  passage :: jsstring
  keypoints :: "Keypoint list"
  target_words :: number
  allowed_time_sec :: number
  ti_normative_profile_id :: jsstring
  ti_created_at :: jsstring

record KeypointResult =
  keypoint_id :: number
  kr_text :: jsstring
  hit :: bool
  matched_tokens :: "jsstring list"

record SessionResult =
  session_id :: jsstring
  test_id :: jsstring
  normative_profile_id :: jsstring
  recall_text :: jsstring
  coverage_pct :: number
  z_coverage :: number
  wpm_effective :: number
  z_wpm :: "number option"
  rci_coverage :: "number option"
  created_at :: jsstring
  keypoint_results :: "KeypointResult list"
  qualitative_label :: jsstring

section \<open>constants.ts: the normative profiles\<close>

definition NORMATIVE_PROFILES :: "NormativeProfile list" where
  "NORMATIVE_PROFILES =
    [\<lparr> np_id = str ''adult_high_performance'',
       np_label = str ''Adulto (Alto Desempenho) - 39 anos / QI ~132'',
       np_language = pt_BR,
       mean_wpm = 250, sd_wpm = 40,
       mean_coverage = 80, sd_coverage = 10,
       reliability_coverage = 0.85 \<rparr>,
     \<lparr> np_id = str ''adult_pt_br_general'',
       np_label = str ''Adulto Geral (pt-BR) - Piloto'',
       np_language = pt_BR,
       mean_wpm = 180, sd_wpm = 30,
       mean_coverage = 65, sd_coverage = 15,
       reliability_coverage = 0.80 \<rparr>,
     \<lparr> np_id = str ''elderly_pt_br_general'',
       np_label = str ''Idoso >65 anos (pt-BR) - Piloto'',
       np_language = pt_BR,
       mean_wpm = 140, sd_wpm = 25,
       mean_coverage = 50, sd_coverage = 12,
       reliability_coverage = 0.75 \<rparr>,
     \<lparr> np_id = str ''adult_en_us_general'',
       np_label = str ''General Adult (en-US) - Pilot'',
       np_language = en_US,
       mean_wpm = 230, sd_wpm = 40,
       mean_coverage = 65, sd_coverage = 15,
       reliability_coverage = 0.80 \<rparr>]"

section \<open>The scoring service\<close>

subsection \<open>tokenize\<close>

definition normalized :: "platform \<Rightarrow> jsstring \<Rightarrow> jsstring" where
  "normalized env text_in =
     filter (\<lambda>c. is_word c \<or> is_space c)
       (filter (\<lambda>c. \<not> is_combining c) (normalizeNFD env (toLowerCase env text_in)))"

definition stopwords_for :: "Language \<Rightarrow> jsstring list" where
  "stopwords_for lang = (if lang = en_US then STOPWORDS_EN_US else STOPWORDS_PT_BR)"

definition tokenize :: "platform \<Rightarrow> jsstring \<Rightarrow> Language \<Rightarrow> jsstring list" where
  "tokenize env text_in lang =
     (let tokens = filter (\<lambda>t. 0 < length t) (split_ws (normalized env text_in));
          stopwords = stopwords_for lang
      in filter (\<lambda>t. t \<notin> set stopwords \<and> 2 < length t) tokens)"

subsection \<open>calculateMatch\<close>

definition matches_of :: "jsstring list \<Rightarrow> jsstring list \<Rightarrow> jsstring list" where
  "matches_of recallTokens keypointTokens =
     filter (\<lambda>kt. kt \<in> set recallTokens) keypointTokens"

definition coverageRatio :: "jsstring list \<Rightarrow> jsstring list \<Rightarrow> number" where
  "coverageRatio recallTokens keypointTokens =
     num_div (Fin (real (length (matches_of recallTokens keypointTokens))))
             (Fin (real (length keypointTokens)))"

definition calculateMatch :: "jsstring list \<Rightarrow> jsstring list \<Rightarrow> bool \<times> jsstring list" where
  "calculateMatch recallTokens keypointTokens =
     (let matches = matches_of recallTokens keypointTokens;
          uniqueMatches = array_from_set matches;
          hit = (num_ge (coverageRatio recallTokens keypointTokens) (Fin 0.35)
                 \<or> 2 \<le> length uniqueMatches)
      in (hit, uniqueMatches))"

subsection \<open>scoreSession\<close>

text \<open>The local variables of \<^verbatim>\<open>scoreSession\<close>, in the order the source computes them.\<close>

definition keypointResults :: "platform \<Rightarrow> TestInstance \<Rightarrow> jsstring \<Rightarrow> KeypointResult list" where
  "keypointResults env test recallText =
     (let recallTokens = tokenize env recallText (language test)
      in map (\<lambda>kp.
            let kpTokens = tokenize env (kp_text kp) (language test);
                (h, matches) = calculateMatch recallTokens kpTokens
            in \<lparr> keypoint_id = kp_id kp, kr_text = kp_text kp, hit = h,
                 matched_tokens = matches \<rparr>)
          (keypoints test))"

definition hitCount :: "platform \<Rightarrow> TestInstance \<Rightarrow> jsstring \<Rightarrow> nat" where
  "hitCount env test recallText = length (filter hit (keypointResults env test recallText))"

definition coveragePct :: "platform \<Rightarrow> TestInstance \<Rightarrow> jsstring \<Rightarrow> number" where
  "coveragePct env test recallText =
     num_mul (num_div (Fin (real (hitCount env test recallText)))
                      (Fin (real (length (keypoints test)))))
             (Fin 100)"

definition profile_of :: "TestInstance \<Rightarrow> NormativeProfile option" where
  "profile_of test = List.find (\<lambda>p. np_id p = ti_normative_profile_id test) NORMATIVE_PROFILES"

definition safeTime :: "number \<Rightarrow> number" where
  "safeTime actualReadTimeSec =
     (if num_lt actualReadTimeSec (Fin 5) then Fin 5 else actualReadTimeSec)"

definition passageWordCount :: "TestInstance \<Rightarrow> nat" where
  "passageWordCount test = length (split_ws (trim (passage test)))"

definition wpmEffective :: "TestInstance \<Rightarrow> number \<Rightarrow> number" where
  "wpmEffective test actualReadTimeSec =
     Math_round (num_mul (num_div (Fin (real (passageWordCount test)))
                                  (safeTime actualReadTimeSec))
                         (Fin 60))"

text \<open>The body of \<^verbatim>\<open>if (profile) { ... }\<close>.\<close>

definition zCoverage_of :: "NormativeProfile \<Rightarrow> number \<Rightarrow> number" where
  "zCoverage_of profile cov =
     num_div (num_sub cov (Fin (mean_coverage profile))) (Fin (sd_coverage profile))"

definition zWpm_of :: "NormativeProfile \<Rightarrow> number \<Rightarrow> number" where
  "zWpm_of profile wpm =
     num_div (num_sub wpm (Fin (mean_wpm profile))) (Fin (sd_wpm profile))"

definition label_within :: jsstring where
  "label_within = str ''Dentro da faixa esperada''"

definition label_mild :: jsstring where
  "label_mild = str ''Levemente reduzido''"

definition label_below :: jsstring where
  "label_below = str ''Abaixo do esperado''"

definition label_unavailable :: jsstring where
  "label_unavailable = str ''Dados normativos indispon'' @ [0xED] @ str ''veis''"

definition label_of :: "number \<Rightarrow> jsstring" where
  "label_of zCoverage =
     (if num_ge zCoverage (Fin (- 1)) then label_within
      else if num_ge zCoverage (Fin (- 2)) then label_mild
      else label_below)"

definition sDiff_of :: "NormativeProfile \<Rightarrow> number" where
  "sDiff_of profile =
     num_mul (Fin (sd_coverage profile))
       (Math_sqrt (num_mul (Fin 2) (num_sub (Fin 1) (Fin (reliability_coverage profile)))))"

definition rciCoverage_of :: "NormativeProfile \<Rightarrow> number \<Rightarrow> SessionResult \<Rightarrow> number" where
  "rciCoverage_of profile cov previousSession =
     (let sDiff = sDiff_of profile;
          diff = num_sub cov (coverage_pct previousSession)
      in num_div diff sDiff)"

text \<open>\<^verbatim>\<open>x ? Number(x.toFixed(2)) : undefined\<close>, for \<open>x\<close> a number or \<^verbatim>\<open>undefined\<close>.\<close>

definition rounded_if_truthy :: "number option \<Rightarrow> number option" where
  "rounded_if_truthy x =
     (case x of None \<Rightarrow> None
      | Some v \<Rightarrow> (if truthy v then Some (toFixed2 v) else None))"

definition scoreSession ::
  "platform \<Rightarrow> TestInstance \<Rightarrow> jsstring \<Rightarrow> number \<Rightarrow> SessionResult option \<Rightarrow> SessionResult" where
  "scoreSession env test recallText actualReadTimeSec previousSession =
     (let cov = coveragePct env test recallText;
          profile = profile_of test;
          wpm = wpmEffective test actualReadTimeSec;
          (zCoverage, rciCoverage, qualitativeLabel, zWpm) =
            (case profile of
               None \<Rightarrow> (Fin 0, None, label_unavailable, None)
             | Some p \<Rightarrow>
                 (zCoverage_of p cov,
                  (case previousSession of
                     None \<Rightarrow> None
                   | Some prev \<Rightarrow> Some (rciCoverage_of p cov prev)),
                  label_of (zCoverage_of p cov),
                  Some (zWpm_of p wpm)))
      in \<lparr> session_id = randomUUID env,
           test_id = ti_id test,
           normative_profile_id = ti_normative_profile_id test,
           recall_text = recallText,
           coverage_pct = cov,
           z_coverage = toFixed2 zCoverage,
           wpm_effective = wpm,
           z_wpm = rounded_if_truthy zWpm,
           rci_coverage = rounded_if_truthy rciCoverage,
           created_at = nowISOString env,
           keypoint_results = keypointResults env test recallText,
           qualitative_label = qualitativeLabel \<rparr>)"

section \<open>Reference notions and sample inputs\<close>

text \<open>
  The number of whitespace-delimited words of a text, counted directly: a word starts
  at every code unit that is not whitespace and does not continue a word. \<open>inword\<close>
  says that the previous code unit belonged to a word.
\<close>

fun count_words :: "bool \<Rightarrow> jsstring \<Rightarrow> nat" where
  "count_words inword [] = 0"
| "count_words inword (c # cs) =
     (if is_space c then count_words False cs
      else (if inword then 0 else 1) + count_words True cs)"

definition word_count :: "jsstring \<Rightarrow> nat" where
  "word_count s = count_words False s"

text \<open>Letters and digits: the code units of \<^verbatim>\<open>\w\<close> other than the underscore.\<close>

definition is_alphanumeric :: "nat \<Rightarrow> bool" where
  "is_alphanumeric c \<longleftrightarrow>
     (0x30 \<le> c \<and> c \<le> 0x39) \<or> (0x41 \<le> c \<and> c \<le> 0x5A) \<or> (0x61 \<le> c \<and> c \<le> 0x7A)"


text \<open>
  A platform for ASCII text: on such text \<^verbatim>\<open>toLowerCase\<close> maps \<^verbatim>\<open>A\<close> to \<^verbatim>\<open>Z\<close> to
  \<^verbatim>\<open>a\<close> to \<^verbatim>\<open>z\<close> and canonical decomposition changes nothing.
\<close>

definition ascii_lower :: "nat \<Rightarrow> nat" where
  "ascii_lower c = (if 0x41 \<le> c \<and> c \<le> 0x5A then c + 0x20 else c)"

definition ascii_platform :: platform where
  "ascii_platform =
     \<lparr> toLowerCase = map ascii_lower, normalizeNFD = (\<lambda>s. s),
       randomUUID = str ''00000000-0000-4000-8000-000000000000'',
       nowISOString = str ''2025-01-01T00:00:00.000Z'' \<rparr>"

text \<open>An English test of five keypoints over a passage of one hundred words.\<close>

definition sample_passage :: jsstring where
  "sample_passage =
     str ''the brain can change its own wiring when people learn '' @
     str ''the brain can change its own wiring when people learn '' @
     str ''the brain can change its own wiring when people learn '' @
     str ''the brain can change its own wiring when people learn '' @
     str ''the brain can change its own wiring when people learn '' @
     str ''the brain can change its own wiring when people learn '' @
     str ''the brain can change its own wiring when people learn '' @
     str ''the brain can change its own wiring when people learn '' @
     str ''the brain can change its own wiring when people learn '' @
     str ''the brain can change its own wiring when people learn''"

definition sample_keypoints :: "Keypoint list" where
  "sample_keypoints =
    [\<lparr> kp_id = Fin 0, kp_text = str ''Neurons adapt.'',
       kp_tokens = [str ''neurons'', str ''adapt''] \<rparr>,
     \<lparr> kp_id = Fin 1, kp_text = str ''Sleep consolidates memory.'',
       kp_tokens = [str ''sleep'', str ''consolidates'', str ''memory''] \<rparr>,
     \<lparr> kp_id = Fin 2, kp_text = str ''Practice strengthens synapses.'',
       kp_tokens = [str ''practice'', str ''strengthens'', str ''synapses''] \<rparr>,
     \<lparr> kp_id = Fin 3, kp_text = str ''Stress impairs recall.'',
       kp_tokens = [str ''stress'', str ''impairs'', str ''recall''] \<rparr>,
     \<lparr> kp_id = Fin 4, kp_text = str ''Exercise improves cognition.'',
       kp_tokens = [str ''exercise'', str ''improves'', str ''cognition''] \<rparr>]"

definition sample_test :: TestInstance where
  "sample_test =
     \<lparr> ti_id = str ''test-1'', language = en_US, topic = str ''Neuroplasticity'',
       complexity = neutral, passage = sample_passage, keypoints = sample_keypoints,
       target_words = Fin 100, allowed_time_sec = Fin 60,
       ti_normative_profile_id = str ''adult_en_us_general'',
       ti_created_at = str ''2025-01-01T00:00:00.000Z'' \<rparr>"

text \<open>A recall that covers the first four keypoints, and one that covers only the first.\<close>

definition sample_recall :: jsstring where
  "sample_recall =
     str ''Neurons adapt, sleep consolidates memory; '' @
     str ''practice strengthens synapses and stress impairs recall!''"


text \<open>The session scored just before: the same test with the same recall.\<close>

definition sample_previous :: SessionResult where
  "sample_previous = scoreSession ascii_platform sample_test sample_recall (Fin 30) None"

section \<open>The keypoint match evaluator\<close>

lemma set_array_from_set: "set (array_from_set xs) = set xs"
  by (simp add: array_from_set_def)

lemma distinct_array_from_set: "distinct (array_from_set xs)"
  by (simp add: array_from_set_def)

lemma length_array_from_set: "length (array_from_set xs) = card (set xs)"
proof -
  have "length (array_from_set xs) = card (set (array_from_set xs))"
    by (rule distinct_card [symmetric]) (rule distinct_array_from_set)
  then show ?thesis by (simp add: set_array_from_set)
qed

lemma set_matches_of: "set (matches_of r k) = set r \<inter> set k"
  by (auto simp: matches_of_def)

lemma count_list_filter: "count_list (filter P xs) t = (if P t then count_list xs t else 0)"
  by (induction xs) auto

text \<open>
  The length of the filtered keypoint list is the number of occurrences, in the keypoint,
  of the tokens shared with the recall.
\<close>

lemma length_matches_of:
  "length (matches_of r k) = (\<Sum>t \<in> set r \<inter> set k. count_list k t)"
proof -
  have "length (matches_of r k) = sum (count_list (matches_of r k)) (set (matches_of r k))"
    by (simp add: sum_count_set)
  also have "\<dots> = (\<Sum>t \<in> set r \<inter> set k. count_list k t)"
    by (rule sum.cong) (auto simp: set_matches_of matches_of_def count_list_filter)
  finally show ?thesis .
qed

text \<open>
  A quotient of two array lengths that lies below 7/20 lies below it by more than
  \<open>2\<^sup>-\<^sup>3\<^sup>7\<close>, far more than the rounding error of a double near 0.35 (about \<open>2\<^sup>-\<^sup>5\<^sup>4\<close>).
\<close>

lemma ratio_threshold_gap:
  fixes m k :: nat
  assumes "0 < k" and "k < 2 ^ 32" and "real m / real k < 7 / 20"
  shows "real m / real k \<le> 7 / 20 - 1 / (20 * 2 ^ 32)"
proof -
  from assms(1,3) have "real (20 * m) < real (7 * k)"
    by (simp add: divide_less_eq)
  then have "20 * m + 1 \<le> 7 * k"
    by (simp only: of_nat_less_iff)
  then have "real (20 * m + 1) \<le> real (7 * k)"
    by (simp only: of_nat_le_iff)
  then have a: "real m / real k \<le> 7 / 20 - 1 / (20 * real k)"
    using assms(1) by (simp add: field_simps)
  from assms(1,2) have "real k < 2 ^ 32"
    by (metis of_nat_less_iff of_nat_numeral of_nat_power)
  then have "1 / (20 * 2 ^ 32) \<le> 1 / (20 * real k)"
    using assms(1) by (simp add: frac_le)
  with a show ?thesis by linarith
qed

lemma coverageRatio_nonempty:
  "k \<noteq> [] \<Longrightarrow> coverageRatio r k = Fin (real (length (matches_of r k)) / real (length k))"
  by (simp add: coverageRatio_def)

lemma coverageRatio_empty: "coverageRatio r [] = NaN"
  by (simp add: coverageRatio_def matches_of_def)

text \<open>
  C1. For a keypoint with at least one token, the matched tokens are the distinct tokens
  that occur in both sequences, the coverage ratio is the number of keypoint token
  occurrences (with multiplicity in the keypoint) found in the recall, divided by the
  number of keypoint tokens, and the keypoint is hit exactly when that ratio is at least
  0.35 or at least two distinct tokens are shared. (By \<open>ratio_threshold_gap\<close> the
  comparison of the doubles decides as the exact comparison with 7/20 does, for arrays of
  fewer than \<open>2\<^sup>3\<^sup>2\<close> elements.)
\<close>

theorem calculateMatch_hit_rule:
  assumes "keypointTokens \<noteq> []"
  shows "set (snd (calculateMatch recallTokens keypointTokens))
           = set recallTokens \<inter> set keypointTokens
       \<and> distinct (snd (calculateMatch recallTokens keypointTokens))
       \<and> coverageRatio recallTokens keypointTokens
           = Fin (real (\<Sum>t \<in> set recallTokens \<inter> set keypointTokens.
                          count_list keypointTokens t)
                  / real (length keypointTokens))
       \<and> (fst (calculateMatch recallTokens keypointTokens) \<longleftrightarrow>
            0.35 \<le> real (\<Sum>t \<in> set recallTokens \<inter> set keypointTokens.
                            count_list keypointTokens t)
                     / real (length keypointTokens)
            \<or> 2 \<le> card (set recallTokens \<inter> set keypointTokens))"
  using assms
  by (simp add: calculateMatch_def Let_def set_array_from_set distinct_array_from_set
      length_array_from_set set_matches_of coverageRatio_nonempty length_matches_of)

text \<open>
  A keypoint of three tokens of which one, occurring twice, is recalled: the ratio is
  2/3 although a single distinct token is shared, and the keypoint is hit.
\<close>

theorem calculateMatch_hit_rule_witness:
  "[str ''abc'', str ''xyz'', str ''abc''] \<noteq> []
   \<and> set (snd (calculateMatch [str ''abc'', str ''def''] [str ''abc'', str ''xyz'', str ''abc'']))
       = {str ''abc''}
   \<and> coverageRatio [str ''abc'', str ''def''] [str ''abc'', str ''xyz'', str ''abc'']
       = Fin (2 / 3)
   \<and> fst (calculateMatch [str ''abc'', str ''def''] [str ''abc'', str ''xyz'', str ''abc''])"
proof -
  have ne: "[str ''abc'', str ''xyz'', str ''abc''] \<noteq> []"
    by simp
  have inter: "set [str ''abc'', str ''def''] \<inter> set [str ''abc'', str ''xyz'', str ''abc'']
                = {str ''abc''}"
    by (auto simp: str_def)
  show ?thesis
    using calculateMatch_hit_rule [OF ne, of "[str ''abc'', str ''def'']"]
    unfolding inter by (simp add: str_def)
qed

text \<open>
  C9 (as the code has it). For a keypoint without tokens the division is not guarded:
  the coverage ratio is \<^verbatim>\<open>0 / 0\<close>, that is NaN. The comparison of NaN with 0.35 is
  false, so the ratio branch cannot hit, and the evaluator returns no hit and no matched
  token, whatever the recall.
\<close>

theorem calculateMatch_empty_keypoint:
  "coverageRatio recallTokens [] = NaN
   \<and> \<not> num_ge (coverageRatio recallTokens []) (Fin 0.35)
   \<and> calculateMatch recallTokens [] = (False, [])"
  by (simp add: coverageRatio_empty calculateMatch_def matches_of_def array_from_set_def)

theorem calculateMatch_empty_keypoint_witness:
  "coverageRatio [str ''recall''] [] = NaN
   \<and> calculateMatch [str ''recall''] [] = (False, [])"
  using calculateMatch_empty_keypoint [of "[str ''recall'']"] by simp

text \<open>The coverage ratio of a keypoint without tokens is not 0.\<close>

theorem empty_keypoint_ratio_counterexample:
  "coverageRatio [str ''recall''] [] \<noteq> Fin 0"
  by (simp add: coverageRatio_empty)

section \<open>Numbers: rounding to two decimals\<close>





lemma Math_round_integer: "Math_round (Fin x) = Fin (of_int \<lfloor>x + 1 / 2\<rfloor>)"
  by simp

section \<open>The tokenizer\<close>

lemma split_from_chars:
  "f \<in> set (split_from cur insep s) \<Longrightarrow> c \<in> set f \<Longrightarrow>
     c \<in> set cur \<or> (c \<in> set s \<and> \<not> is_space c)"
proof (induction s arbitrary: cur insep)
  case Nil
  then show ?case by simp
next
  case (Cons a s)
  then show ?case
    by (fastforce split: if_splits)
qed

lemma split_ws_chars:
  "f \<in> set (split_ws s) \<Longrightarrow> c \<in> set f \<Longrightarrow> c \<in> set s \<and> \<not> is_space c"
  using split_from_chars [of f "[]" False s c] by (simp add: split_ws_def)

lemma normalized_chars: "c \<in> set (normalized env text_in) \<Longrightarrow> is_word c \<or> is_space c"
  by (simp add: normalized_def)

lemma tokenize_subset_split:
  "set (tokenize env text_in lang) \<subseteq> set (split_ws (normalized env text_in))"
  by (auto simp: tokenize_def Let_def)

lemma is_word_iff: "is_word c \<longleftrightarrow> is_alphanumeric c \<or> c = 0x5F"
  by (auto simp: is_word_def is_alphanumeric_def)

text \<open>
  What the tokenizer does ensure, for every text, every language and every behaviour of
  the platform's string functions: after normalisation only word characters (the class
  \<^verbatim>\<open>\w\<close>) and whitespace are left, and every code unit of every token is an ASCII
  letter, an ASCII digit or the underscore.
\<close>

lemma tokenize_word_characters:
  "(\<forall>c \<in> set (normalized env text_in). is_word c \<or> is_space c)
   \<and> (\<forall>t \<in> set (tokenize env text_in lang). \<forall>c \<in> set t. is_alphanumeric c \<or> c = 0x5F)"
proof -
  have "is_word c" if "t \<in> set (tokenize env text_in lang)" and "c \<in> set t" for t c
  proof -
    from that(1) have "t \<in> set (split_ws (normalized env text_in))"
      using tokenize_subset_split by blast
    with that(2) have "c \<in> set (normalized env text_in)" and "\<not> is_space c"
      using split_ws_chars by blast+
    then show ?thesis using normalized_chars by blast
  qed
  then show ?thesis by (auto simp: is_word_iff [symmetric] normalized_chars)
qed

lemma tokenize_word_characters_sample:
  "tokenize ascii_platform (str ''Snake_case, etc.'') en_US = [str ''snake_case'', str ''etc'']
   \<and> list_all (\<lambda>t. list_all (\<lambda>c. is_alphanumeric c \<or> c = 0x5F) t)
        (tokenize ascii_platform (str ''Snake_case, etc.'') en_US)"
proof -
  have "tokenize ascii_platform (str ''Snake_case, etc.'') en_US = [str ''snake_case'', str ''etc'']"
    by code_simp
  then show ?thesis
    using tokenize_word_characters [of ascii_platform "str ''Snake_case, etc.''" en_US]
    by (simp add: list_all_iff)
qed

text \<open>
  C10, at the input where the code departs from it. The source removes
  \<^verbatim>\<open>/[^\w\s]/g\<close> under the comment "Remove punctuation", and \<^verbatim>\<open>\w\<close> contains the
  underscore: the token of \<^verbatim>\<open>snake_case\<close> keeps its underscore, a code unit that is
  neither alphanumeric nor whitespace.
\<close>

theorem tokenize_keeps_underscore:
  "tokenize ascii_platform (str ''snake_case'') en_US = [str ''snake_case'']
   \<and> 0x5F \<in> set (str ''snake_case'') \<and> \<not> is_alphanumeric 0x5F \<and> \<not> is_space 0x5F"
  by code_simp


section \<open>The passage word count\<close>

text \<open>
  \<^verbatim>\<open>passage.trim().split(/\s+/).length\<close> against \<open>word_count\<close>: the two agree on every
  passage that holds a code unit other than whitespace. On a blank passage the split
  returns one empty fragment, and the length is 1.
\<close>

lemma split_from_count:
  "insep \<longrightarrow> cur = [] \<Longrightarrow>
   length (filter (\<lambda>f. f \<noteq> []) (split_from cur insep s))
     = (if cur \<noteq> [] then 1 else 0) + count_words (cur \<noteq> []) s"
  by (induction s arbitrary: cur insep) auto

lemma split_from_no_empty:
  "(s = [] \<longrightarrow> cur \<noteq> []) \<Longrightarrow>
   (s \<noteq> [] \<longrightarrow> \<not> is_space (last s) \<and> (cur \<noteq> [] \<or> insep \<or> \<not> is_space (hd s))) \<Longrightarrow>
   [] \<notin> set (split_from cur insep s)"
proof (induction s arbitrary: cur insep)
  case Nil
  then show ?case by simp
next
  case (Cons a s)
  show ?case
  proof (cases "is_space a")
    case True
    with Cons.prems have ne: "s \<noteq> []" by auto
    with Cons.prems have l: "\<not> is_space (last s)" by simp
    show ?thesis
    proof (cases insep)
      case True
      have "[] \<notin> set (split_from cur True s)"
        by (rule Cons.IH) (use ne l in auto)
      with \<open>is_space a\<close> True show ?thesis by simp
    next
      case False
      with Cons.prems \<open>is_space a\<close> have c: "cur \<noteq> []" by simp
      have "[] \<notin> set (split_from [] True s)"
        by (rule Cons.IH) (use ne l in auto)
      with \<open>is_space a\<close> False c show ?thesis by simp
    qed
  next
    case False
    have "[] \<notin> set (split_from (cur @ [a]) False s)"
      by (rule Cons.IH) (use Cons.prems in \<open>auto split: if_splits\<close>)
    with False show ?thesis by simp
  qed
qed

lemma count_words_append_spaces:
  "\<forall>c \<in> set ys. is_space c \<Longrightarrow> count_words b (xs @ ys) = count_words b xs"
proof (induction xs arbitrary: b)
  case Nil
  then show ?case by (induction ys arbitrary: b) auto
next
  case (Cons a xs)
  then show ?case by simp
qed

lemma count_words_dropWhile:
  "count_words False (dropWhile is_space s) = count_words False s"
  by (induction s) auto

lemma trim_decomp:
  "\<exists>ys. (\<forall>c \<in> set ys. is_space c) \<and> dropWhile is_space s = trim s @ ys"
proof -
  let ?t = "dropWhile is_space s"
  have "rev ?t = takeWhile is_space (rev ?t) @ dropWhile is_space (rev ?t)"
    by simp
  then have "?t = rev (dropWhile is_space (rev ?t)) @ rev (takeWhile is_space (rev ?t))"
    by (metis rev_append rev_rev_ident)
  moreover have "\<forall>c \<in> set (rev (takeWhile is_space (rev ?t))). is_space c"
    by (auto dest: set_takeWhileD)
  ultimately show ?thesis unfolding trim_def by blast
qed

lemma word_count_trim: "word_count (trim s) = word_count s"
proof -
  obtain ys where ys: "\<forall>c \<in> set ys. is_space c" and eq: "dropWhile is_space s = trim s @ ys"
    using trim_decomp by blast
  have "word_count s = count_words False (dropWhile is_space s)"
    by (simp add: word_count_def count_words_dropWhile)
  also have "\<dots> = count_words False (trim s)"
    unfolding eq using ys by (rule count_words_append_spaces)
  finally show ?thesis by (simp add: word_count_def)
qed

lemma trim_blank:
  assumes "\<forall>c \<in> set s. is_space c"
  shows "trim s = []"
  using assms by (auto simp: trim_def dest: set_dropWhileD)

lemma trim_nonblank:
  assumes "\<exists>c \<in> set s. \<not> is_space c"
  shows "trim s \<noteq> [] \<and> \<not> is_space (hd (trim s)) \<and> \<not> is_space (last (trim s))"
proof -
  let ?t = "dropWhile is_space s"
  from assms have t: "?t \<noteq> []" by simp
  then have h: "\<not> is_space (hd ?t)" by (rule hd_dropWhile)
  then have "hd ?t \<in> set (rev ?t) \<and> \<not> is_space (hd ?t)" using t by simp
  then have r: "dropWhile is_space (rev ?t) \<noteq> []"
    by auto
  then have ne: "trim s \<noteq> []" by (simp add: trim_def)
  from r have "\<not> is_space (hd (dropWhile is_space (rev ?t)))" by (rule hd_dropWhile)
  then have l: "\<not> is_space (last (trim s))"
    using r by (simp add: trim_def last_rev)
  obtain ys where eq: "?t = trim s @ ys" using trim_decomp by blast
  with ne have "hd (trim s) = hd ?t" by (metis hd_append2)
  with h ne l show ?thesis by simp
qed

lemma split_ws_trim_length:
  "length (split_ws (trim s)) = (if \<forall>c \<in> set s. is_space c then 1 else word_count s)"
proof (cases "\<forall>c \<in> set s. is_space c")
  case True
  then show ?thesis by (simp add: trim_blank split_ws_def)
next
  case False
  then have nb: "trim s \<noteq> [] \<and> \<not> is_space (hd (trim s)) \<and> \<not> is_space (last (trim s))"
    using trim_nonblank by blast
  then have "[] \<notin> set (split_ws (trim s))"
    unfolding split_ws_def by (intro split_from_no_empty) auto
  then have "filter (\<lambda>f. f \<noteq> []) (split_ws (trim s)) = split_ws (trim s)"
    by (auto simp: filter_id_conv)
  then have "length (split_ws (trim s)) = length (filter (\<lambda>f. f \<noteq> []) (split_ws (trim s)))"
    by simp
  also have "\<dots> = word_count (trim s)"
    unfolding split_ws_def word_count_def by (subst split_from_count) auto
  finally have "length (split_ws (trim s)) = word_count s"
    by (simp add: word_count_trim)
  with False show ?thesis by auto
qed

lemma passageWordCount_eq:
  "passageWordCount test =
     (if \<forall>c \<in> set (passage test). is_space c then 1 else word_count (passage test))"
  by (simp add: passageWordCount_def split_ws_trim_length)

section \<open>The fields of the result\<close>

lemma coverage_pct_scoreSession:
  "coverage_pct (scoreSession env test recallText t prev) = coveragePct env test recallText"
  by (simp add: scoreSession_def Let_def split: option.split)

lemma wpm_effective_scoreSession:
  "wpm_effective (scoreSession env test recallText t prev) = wpmEffective test t"
  by (simp add: scoreSession_def Let_def split: option.split)

lemma z_coverage_scoreSession:
  "z_coverage (scoreSession env test recallText t prev) =
     (case profile_of test of
        None \<Rightarrow> Fin 0
      | Some p \<Rightarrow> toFixed2 (zCoverage_of p (coveragePct env test recallText)))"
  by (simp add: scoreSession_def Let_def split: option.split)

lemma qualitative_label_scoreSession:
  "qualitative_label (scoreSession env test recallText t prev) =
     (case profile_of test of
        None \<Rightarrow> label_unavailable
      | Some p \<Rightarrow> label_of (zCoverage_of p (coveragePct env test recallText)))"
  by (simp add: scoreSession_def Let_def split: option.split)

lemma z_wpm_scoreSession:
  "z_wpm (scoreSession env test recallText t prev) =
     (case profile_of test of
        None \<Rightarrow> None
      | Some p \<Rightarrow> rounded_if_truthy (Some (zWpm_of p (wpmEffective test t))))"
  by (simp add: scoreSession_def Let_def rounded_if_truthy_def split: option.split)

lemma rci_coverage_scoreSession:
  "rci_coverage (scoreSession env test recallText t prev) =
     (case profile_of test of
        None \<Rightarrow> None
      | Some p \<Rightarrow>
          (case prev of
             None \<Rightarrow> None
           | Some ps \<Rightarrow>
               rounded_if_truthy (Some (rciCoverage_of p (coveragePct env test recallText) ps))))"
  by (simp add: scoreSession_def Let_def rounded_if_truthy_def split: option.split)

section \<open>Profiles, coverage and reading speed\<close>

lemma profile_of_member: "profile_of test = Some p \<Longrightarrow> p \<in> set NORMATIVE_PROFILES"
  unfolding profile_of_def by (auto simp: find_Some_iff in_set_conv_nth)

lemma profiles_well_formed:
  "p \<in> set NORMATIVE_PROFILES \<Longrightarrow>
     0 < sd_coverage p \<and> 0 < sd_wpm p \<and> 0 < reliability_coverage p \<and> reliability_coverage p < 1"
  by (auto simp: NORMATIVE_PROFILES_def)

lemma hitCount_le: "hitCount env test recallText \<le> length (keypoints test)"
proof -
  have "hitCount env test recallText \<le> length (keypointResults env test recallText)"
    unfolding hitCount_def by (rule length_filter_le)
  then show ?thesis by (simp add: keypointResults_def Let_def)
qed

lemma coveragePct_eq:
  "coveragePct env test recallText =
     (if keypoints test = [] then NaN
      else Fin (real (hitCount env test recallText) / real (length (keypoints test)) * 100))"
proof (cases "keypoints test = []")
  case True
  with hitCount_le [of env test recallText] have "hitCount env test recallText = 0" by simp
  with True show ?thesis by (simp add: coveragePct_def)
next
  case False
  then show ?thesis by (simp add: coveragePct_def)
qed

lemma coverage_bounds:
  assumes "keypoints test \<noteq> []"
  shows "0 \<le> real (hitCount env test recallText) / real (length (keypoints test)) * 100"
    and "real (hitCount env test recallText) / real (length (keypoints test)) * 100 \<le> 100"
proof -
  have n: "0 < real (length (keypoints test))" using assms by simp
  have h: "real (hitCount env test recallText) \<le> real (length (keypoints test))"
    using hitCount_le by simp
  show "0 \<le> real (hitCount env test recallText) / real (length (keypoints test)) * 100"
    by simp
  from n h show "real (hitCount env test recallText) / real (length (keypoints test)) * 100 \<le> 100"
    by (simp add: divide_le_eq)
qed

lemma safeTime_Fin: "safeTime (Fin t) = Fin (max t 5)"
  by (simp add: safeTime_def max_def)

lemma wpmEffective_Fin:
  "wpmEffective test (Fin t) =
     Fin (of_int \<lfloor>real (passageWordCount test) / max t 5 * 60 + 1 / 2\<rfloor>)"
  by (simp add: wpmEffective_def safeTime_Fin max_def)

lemma wpm_nonneg: "0 \<le> \<lfloor>real n / max t 5 * 60 + 1 / 2\<rfloor>"
proof -
  have "0 < max t 5" by simp
  then have "0 \<le> real n / max t 5" by simp
  then have "0 \<le> real n / max t 5 * 60 + 1 / 2" by simp
  then show ?thesis by simp
qed

lemma wpm_effective_finite:
  "\<exists>w. wpm_effective (scoreSession env test recallText (Fin s) prev) = Fin (of_int w) \<and> 0 \<le> w"
  using wpm_nonneg [of "passageWordCount test" s]
  by (simp add: wpm_effective_scoreSession wpmEffective_Fin)

lemma count_words_blank: "\<forall>c \<in> set s. is_space c \<Longrightarrow> count_words b s = 0"
  by (induction s arbitrary: b) auto

section \<open>The sample session\<close>

lemma sample_profile: "profile_of sample_test = Some (NORMATIVE_PROFILES ! 3)"
  by code_simp


lemma sample_coverage: "coveragePct ascii_platform sample_test sample_recall = Fin 80"
  by code_simp

lemma sample_word_count: "passageWordCount sample_test = 100"
  by code_simp

lemma sample_word_count_ref: "word_count (passage sample_test) = 100"
  by code_simp

lemma sample_nonblank: "\<exists>c \<in> set (passage sample_test). \<not> is_space c"
  by code_simp

lemma sample_previous_coverage: "coverage_pct sample_previous = Fin 80"
  by (simp add: sample_previous_def coverage_pct_scoreSession sample_coverage)


section \<open>Bounds on the scores, and the rounded fields\<close>













section \<open>Standard scores and the qualitative label\<close>

text \<open>
  The four labels of the source are four different strings.
\<close>

lemma labels_distinct: "distinct [label_within, label_mild, label_below, label_unavailable]"
  by (simp add: label_within_def label_mild_def label_below_def label_unavailable_def str_def)






text \<open>
  C6 (as the code has it). When the profile identifier of the test is not among the
  known profiles, the result has \<open>z_coverage = 0\<close>, no \<open>z_wpm\<close>, no \<open>rci_coverage\<close>
  (with or without a previous session), and its label is the Portuguese literal of the
  source, "Dados normativos indisponiveis" with an acute accent on the fourth i (code
  unit U+00ED).
\<close>

theorem scoreSession_missing_profile:
  assumes "profile_of test = None"
  shows "z_coverage (scoreSession env test recallText t prev) = Fin 0
       \<and> z_wpm (scoreSession env test recallText t prev) = None
       \<and> rci_coverage (scoreSession env test recallText t prev) = None
       \<and> qualitative_label (scoreSession env test recallText t prev)
           = str ''Dados normativos indispon'' @ [0xED] @ str ''veis''"
  using assms
  by (simp add: z_coverage_scoreSession z_wpm_scoreSession rci_coverage_scoreSession
      qualitative_label_scoreSession label_unavailable_def)

lemma custom_profile:
  "profile_of (sample_test\<lparr>ti_normative_profile_id := str ''my_custom_profile''\<rparr>) = None"
  by code_simp

theorem scoreSession_missing_profile_witness:
  "profile_of (sample_test\<lparr>ti_normative_profile_id := str ''my_custom_profile''\<rparr>) = None
   \<and> z_coverage (scoreSession ascii_platform
        (sample_test\<lparr>ti_normative_profile_id := str ''my_custom_profile''\<rparr>)
        sample_recall (Fin 30) (Some sample_previous)) = Fin 0
   \<and> z_wpm (scoreSession ascii_platform
        (sample_test\<lparr>ti_normative_profile_id := str ''my_custom_profile''\<rparr>)
        sample_recall (Fin 30) (Some sample_previous)) = None
   \<and> rci_coverage (scoreSession ascii_platform
        (sample_test\<lparr>ti_normative_profile_id := str ''my_custom_profile''\<rparr>)
        sample_recall (Fin 30) (Some sample_previous)) = None
   \<and> qualitative_label (scoreSession ascii_platform
        (sample_test\<lparr>ti_normative_profile_id := str ''my_custom_profile''\<rparr>)
        sample_recall (Fin 30) (Some sample_previous))
       = str ''Dados normativos indispon'' @ [0xED] @ str ''veis''"
  using scoreSession_missing_profile [OF custom_profile, of ascii_platform sample_recall "Fin 30"
      "Some sample_previous"]
  by (simp add: custom_profile)

text \<open>
  The label of a session without profile is not the string "normative data
  unavailable".
\<close>

theorem missing_profile_label_counterexample:
  "qualitative_label (scoreSession ascii_platform
        (sample_test\<lparr>ti_normative_profile_id := str ''my_custom_profile''\<rparr>)
        sample_recall (Fin 30) (Some sample_previous))
     = str ''Dados normativos indispon'' @ [0xED] @ str ''veis''
   \<and> str ''Dados normativos indispon'' @ [0xED] @ str ''veis'' \<noteq> str ''normative data unavailable''"
proof -
  have "qualitative_label (scoreSession ascii_platform
        (sample_test\<lparr>ti_normative_profile_id := str ''my_custom_profile''\<rparr>)
        sample_recall (Fin 30) (Some sample_previous)) = label_unavailable"
    by (simp add: qualitative_label_scoreSession custom_profile)
  moreover have "str ''Dados normativos indispon'' @ [0xED] @ str ''veis''
      \<noteq> str ''normative data unavailable''"
    by (simp add: str_def)
  ultimately show ?thesis by (simp only: label_unavailable_def) simp
qed

section \<open>Optional fields and the truthiness test\<close>

text \<open>
  The optional fields are assembled with \<^verbatim>\<open>x ? Number(x.toFixed(2)) : undefined\<close>, and
  the number 0 is falsy. A reliable-change index of 0 and a speed score of 0 are therefore
  reported as absent.
\<close>

lemma rci_absent_when_unchanged:
  assumes "profile_of test = Some p" and "coveragePct env test recallText = Fin c"
    and "coverage_pct ps = Fin c"
  shows "rci_coverage (scoreSession env test recallText t (Some ps)) = None"
proof -
  have "0 < sd_coverage p" "reliability_coverage p < 1"
    using profiles_well_formed [OF profile_of_member [OF assms(1)]] by simp_all
  then have "sDiff_of p = Fin (sd_coverage p * sqrt (2 * (1 - reliability_coverage p)))
      \<and> sd_coverage p * sqrt (2 * (1 - reliability_coverage p)) \<noteq> 0"
    by (simp add: sDiff_of_def)
  then have "rciCoverage_of p (Fin c) ps = Fin 0"
    using assms(3) by (simp add: rciCoverage_of_def Let_def)
  then show ?thesis
    using assms by (simp add: rci_coverage_scoreSession rounded_if_truthy_def)
qed

lemma z_wpm_absent_at_mean:
  assumes "profile_of test = Some p" and "wpmEffective test t = Fin (mean_wpm p)"
  shows "z_wpm (scoreSession env test recallText t prev) = None"
proof -
  have "sd_wpm p \<noteq> 0"
    using profiles_well_formed [OF profile_of_member [OF assms(1)]] by simp
  then have "zWpm_of p (Fin (mean_wpm p)) = Fin 0"
    by (simp add: zWpm_of_def)
  then show ?thesis
    using assms by (simp add: z_wpm_scoreSession rounded_if_truthy_def)
qed

lemma rci_coverage_present_iff:
  "rci_coverage (scoreSession env test recallText t prev) \<noteq> None \<longleftrightarrow>
     (\<exists>p ps. profile_of test = Some p \<and> prev = Some ps
        \<and> truthy (rciCoverage_of p (coveragePct env test recallText) ps))"
  by (auto simp: rci_coverage_scoreSession rounded_if_truthy_def split: option.splits)

lemma z_wpm_present_iff:
  "z_wpm (scoreSession env test recallText t prev) \<noteq> None \<longleftrightarrow>
     (\<exists>p. profile_of test = Some p \<and> truthy (zWpm_of p (wpmEffective test t)))"
  by (auto simp: z_wpm_scoreSession rounded_if_truthy_def split: option.splits)

text \<open>
  C3, at the input where the code departs from it. The sample test is scored a second
  time with the same recall, the first result being the previous session. The profile
  resolves and a previous session is supplied, the two coverages are equal, and the
  result has no \<open>rci_coverage\<close>.
\<close>

theorem rci_absent_for_unchanged_coverage:
  "profile_of sample_test = Some (NORMATIVE_PROFILES ! 3)
   \<and> coverage_pct (scoreSession ascii_platform sample_test sample_recall (Fin 30)
        (Some sample_previous)) = coverage_pct sample_previous
   \<and> rci_coverage (scoreSession ascii_platform sample_test sample_recall (Fin 30)
        (Some sample_previous)) = None"
  using rci_absent_when_unchanged [OF sample_profile sample_coverage sample_previous_coverage]
  by (simp add: sample_profile coverage_pct_scoreSession sample_coverage sample_previous_coverage)

lemma fast_profile:
  "profile_of (sample_test\<lparr>ti_normative_profile_id := str ''adult_high_performance''\<rparr>)
     = Some (NORMATIVE_PROFILES ! 0)"
  by code_simp

lemma fast_word_count:
  "passageWordCount (sample_test\<lparr>ti_normative_profile_id := str ''adult_high_performance''\<rparr>) = 100"
  by code_simp

text \<open>
  C7, at the input where the code departs from it. The sample passage of 100 words read
  in 24 seconds gives 250 words per minute, the mean of the profile
  \<^verbatim>\<open>adult_high_performance\<close>. The profile resolves, and the result has no \<open>z_wpm\<close>.
\<close>

theorem z_wpm_absent_at_mean_speed:
  "profile_of (sample_test\<lparr>ti_normative_profile_id := str ''adult_high_performance''\<rparr>)
     = Some (NORMATIVE_PROFILES ! 0)
   \<and> mean_wpm (NORMATIVE_PROFILES ! 0) = 250
   \<and> wpm_effective (scoreSession ascii_platform
        (sample_test\<lparr>ti_normative_profile_id := str ''adult_high_performance''\<rparr>)
        sample_recall (Fin 24) None) = Fin 250
   \<and> z_wpm (scoreSession ascii_platform
        (sample_test\<lparr>ti_normative_profile_id := str ''adult_high_performance''\<rparr>)
        sample_recall (Fin 24) None) = None"
proof -
  have p: "mean_wpm (NORMATIVE_PROFILES ! 0) = 250" "sd_wpm (NORMATIVE_PROFILES ! 0) = 40"
    by (simp_all add: NORMATIVE_PROFILES_def)
  have w: "wpmEffective (sample_test\<lparr>ti_normative_profile_id := str ''adult_high_performance''\<rparr>)
             (Fin 24) = Fin 250"
    by (simp add: wpmEffective_Fin fast_word_count)
  show ?thesis
    by (simp add: fast_profile p w wpm_effective_scoreSession z_wpm_scoreSession zWpm_of_def
        rounded_if_truthy_def)
qed

section \<open>Degenerate inputs\<close>

text \<open>
  C4 (as the code has it). The division by the number of keypoints is not guarded: for
  a test without keypoints \<open>coverage_pct\<close> is \<^verbatim>\<open>0 / 0\<close>, that is NaN, and for a test with
  keypoints it is the finite value 100 times hits over keypoints, between 0 and 100.
  The elapsed time is floored at 5 seconds, so for every passage and every finite elapsed
  time \<open>wpm_effective\<close> is a finite integer that is not negative.
\<close>

theorem scoreSession_degenerate_input:
  "(if keypoints test = [] then coverage_pct (scoreSession env test recallText t prev) = NaN
    else \<exists>c. coverage_pct (scoreSession env test recallText t prev) = Fin c
           \<and> c = real (hitCount env test recallText) / real (length (keypoints test)) * 100
           \<and> 0 \<le> c \<and> c \<le> 100)
   \<and> (\<exists>w. wpm_effective (scoreSession env test recallText (Fin s) prev) = Fin (of_int w) \<and> 0 \<le> w)"
  using coverage_bounds [of test env recallText] wpm_effective_finite [of env test recallText s prev]
  by (simp add: coverage_pct_scoreSession coveragePct_eq)

lemma degenerate_keypoints: "keypoints (sample_test\<lparr>keypoints := [], passage := []\<rparr>) = []"
  by simp

lemma degenerate_word_count: "passageWordCount (sample_test\<lparr>keypoints := [], passage := []\<rparr>) = 1"
  by (simp add: passageWordCount_eq)

theorem scoreSession_degenerate_input_witness:
  "keypoints (sample_test\<lparr>keypoints := [], passage := []\<rparr>) = []
   \<and> coverage_pct (scoreSession ascii_platform (sample_test\<lparr>keypoints := [], passage := []\<rparr>)
        sample_recall (Fin 30) None) = NaN
   \<and> (\<exists>w. wpm_effective (scoreSession ascii_platform
              (sample_test\<lparr>keypoints := [], passage := []\<rparr>) sample_recall (Fin 30) None)
            = Fin (of_int w) \<and> 0 \<le> w)"
  using scoreSession_degenerate_input [of "sample_test\<lparr>keypoints := [], passage := []\<rparr>"
      ascii_platform sample_recall "Fin 30" None 30]
  by simp

text \<open>
  Without keypoints and with an empty passage, read in 30 seconds: the coverage is NaN,
  not 0, and the speed is 2 words per minute, not 0.
\<close>

theorem degenerate_input_counterexample:
  "coverage_pct (scoreSession ascii_platform (sample_test\<lparr>keypoints := [], passage := []\<rparr>)
        sample_recall (Fin 30) None) = NaN
   \<and> wpm_effective (scoreSession ascii_platform (sample_test\<lparr>keypoints := [], passage := []\<rparr>)
        sample_recall (Fin 30) None) = Fin 2"
  by (simp add: coverage_pct_scoreSession coveragePct_eq wpm_effective_scoreSession
      wpmEffective_Fin degenerate_word_count)

section \<open>Reading speed\<close>

text \<open>
  For every passage that holds a code unit other than whitespace, and every finite
  elapsed time \<open>t\<close>, \<open>wpm_effective\<close> is an integer nearest to
  word_count / max t 5 * 60, over the whitespace-delimited word count of the raw passage;
  for every passage it is a finite integer that is not negative; and 100 words in 2
  seconds give 1200.
\<close>


lemma round_half_nearest: "\<bar>real_of_int \<lfloor>x + 1 / 2\<rfloor> - x\<bar> \<le> 1 / 2"
proof -
  have "real_of_int \<lfloor>x + 1 / 2\<rfloor> \<le> x + 1 / 2" by (rule of_int_floor_le)
  moreover have "x + 1 / 2 < real_of_int \<lfloor>x + 1 / 2\<rfloor> + 1" by linarith
  ultimately show ?thesis by linarith
qed

lemma wpm_effective_word_count:
  "((\<exists>c \<in> set (passage test). \<not> is_space c) \<longrightarrow>
      (\<exists>k. wpm_effective (scoreSession env test recallText (Fin t) prev) = Fin (of_int k)
          \<and> \<bar>of_int k - real (word_count (passage test)) / max t 5 * 60\<bar> \<le> 1 / 2))
   \<and> (\<exists>w. wpm_effective (scoreSession env test recallText (Fin t) prev) = Fin (of_int w) \<and> 0 \<le> w)
   \<and> (word_count (passage test) = 100 \<and> t = 2 \<longrightarrow>
        wpm_effective (scoreSession env test recallText (Fin t) prev) = Fin 1200)"
proof -
  have eq: "wpm_effective (scoreSession env test recallText (Fin t) prev)
        = Fin (of_int \<lfloor>real (word_count (passage test)) / max t 5 * 60 + 1 / 2\<rfloor>)"
    if "\<exists>c \<in> set (passage test). \<not> is_space c"
  proof -
    from that have "passageWordCount test = word_count (passage test)"
      by (auto simp: passageWordCount_eq)
    then show ?thesis by (simp add: wpm_effective_scoreSession wpmEffective_Fin)
  qed
  have a: "\<exists>k. wpm_effective (scoreSession env test recallText (Fin t) prev) = Fin (of_int k)
          \<and> \<bar>of_int k - real (word_count (passage test)) / max t 5 * 60\<bar> \<le> 1 / 2"
    if "\<exists>c \<in> set (passage test). \<not> is_space c"
    using eq [OF that] round_half_nearest [of "real (word_count (passage test)) / max t 5 * 60"]
    by blast
  have b: "\<exists>c \<in> set (passage test). \<not> is_space c" if "word_count (passage test) = 100"
  proof (rule ccontr)
    assume "\<not> (\<exists>c \<in> set (passage test). \<not> is_space c)"
    then have "word_count (passage test) = 0"
      unfolding word_count_def by (intro count_words_blank) simp
    with that show False by simp
  qed
  have c: "wpm_effective (scoreSession env test recallText (Fin t) prev) = Fin 1200"
    if "word_count (passage test) = 100" "t = 2"
  proof -
    have "\<lfloor>real 100 / max (2::real) 5 * 60 + 1 / 2\<rfloor> = 1200" by simp
    with eq [OF b [OF that(1)]] that show ?thesis by simp
  qed
  from a c wpm_effective_finite [of env test recallText t prev] show ?thesis by blast
qed

lemma wpm_effective_word_count_sample:
  "(\<exists>c \<in> set (passage sample_test). \<not> is_space c)
   \<and> word_count (passage sample_test) = 100
   \<and> wpm_effective (scoreSession ascii_platform sample_test sample_recall (Fin 2) None) = Fin 1200"
  using wpm_effective_word_count [of sample_test ascii_platform sample_recall 2 None]
  by (simp add: sample_nonblank sample_word_count_ref)

text \<open>
  C5, at the input where the code departs from it. The empty passage has no word, but
  \<^verbatim>\<open>"".trim().split(/\s+/)\<close> is the one-element array of the empty string (the tokenizer
  filters empty fragments out, this path does not), so the word count is 1 and the speed
  at 5 seconds is 12 words per minute instead of 0.
\<close>

theorem empty_passage_counts_one_word:
  "word_count (passage (sample_test\<lparr>passage := []\<rparr>)) = 0
   \<and> passageWordCount (sample_test\<lparr>passage := []\<rparr>) = 1
   \<and> wpm_effective (scoreSession ascii_platform (sample_test\<lparr>passage := []\<rparr>)
        sample_recall (Fin 5) None) = Fin 12"
  by (simp add: word_count_def passageWordCount_eq wpm_effective_scoreSession wpmEffective_Fin)

section \<open>Rounding in the assembled result\<close>








end
